theory Spec2Isabelle
  imports Complex_Main
begin

section \<open>Strings of the host language\<close>

text \<open>
  Strings are lists of 8-bit characters; the source's texts are taken as ASCII.
  Numbers of the source are IEEE doubles; they are idealised as reals here (no
  rounding, no overflow), and \<open>NaN\<close> is the value \<open>None\<close> wherever the source
  tests for it.
\<close>

definition isWhiteSpace :: "char \<Rightarrow> bool" where
  "isWhiteSpace c =
     (c \<in> set [CHR 0x09, CHR ''\<newline>'', CHR 0x0B, CHR 0x0C, CHR 0x0D, CHR '' ''])"

definition trim :: "string \<Rightarrow> string" where
  "trim s = rev (dropWhile isWhiteSpace (rev (dropWhile isWhiteSpace s)))"

definition lowerChar :: "char \<Rightarrow> char" where
  "lowerChar c =
     (case map_of (zip ''ABCDEFGHIJKLMNOPQRSTUVWXYZ'' ''abcdefghijklmnopqrstuvwxyz'') c of
        Some l \<Rightarrow> l
      | None \<Rightarrow> c)"

definition toLowerCase :: "string \<Rightarrow> string" where
  "toLowerCase s = map lowerChar s"

text \<open>\<open>s.split(c)\<close> for a one-character separator: the empty string gives one empty piece.\<close>

fun js_split :: "char \<Rightarrow> string \<Rightarrow> string list" where
  "js_split c [] = [[]]"
| "js_split c (x # xs) =
     (if x = c then [] # js_split c xs
      else (case js_split c xs of
              [] \<Rightarrow> [[x]]
            | w # ws \<Rightarrow> (x # w) # ws))"

fun startsWith :: "string \<Rightarrow> string \<Rightarrow> bool" where
  "startsWith s [] = True"
| "startsWith [] (p # ps) = False"
| "startsWith (x # xs) (p # ps) = (x = p \<and> startsWith xs ps)"

text \<open>\<open>s.includes(sub)\<close>: \<open>sub\<close> occurs in \<open>s\<close> as a contiguous piece.\<close>

fun js_includes :: "string \<Rightarrow> string \<Rightarrow> bool" where
  "js_includes [] sub = (sub = [])"
| "js_includes (x # xs) sub = (startsWith (x # xs) sub \<or> js_includes xs sub)"

definition endsWith :: "string \<Rightarrow> string \<Rightarrow> bool" where
  "endsWith s suffix = startsWith (rev s) (rev suffix)"

section \<open>Dates\<close>

text \<open>
  A \<open>Date\<close> object is either the invalid date (its \<open>getTime()\<close> is \<open>NaN\<close>) or a point in
  time, of which the code reads the full year and the month index (0 to 11); the third
  component of \<open>Valid_Date\<close> stands for the rest of the time stamp within the month.
  \<open>new Date(text)\<close> is a function of the host whose accepted formats depend on the
  engine; it is a parameter \<open>newDate\<close> of every function that calls it, as is
  \<open>parseFloat\<close> (\<open>None\<close> for \<open>NaN\<close>).
\<close>

datatype JSDate = Invalid_Date | Valid_Date int nat nat

fun isNaN_getTime :: "JSDate \<Rightarrow> bool" where
  "isNaN_getTime Invalid_Date = True"
| "isNaN_getTime (Valid_Date y m t) = False"

text \<open>
  \<open>d.getFullYear() === now.getFullYear() && d.getMonth() === now.getMonth()\<close>; on an
  invalid date both getters are \<open>NaN\<close>, which is equal to nothing.
\<close>

fun sameMonth :: "JSDate \<Rightarrow> JSDate \<Rightarrow> bool" where
  "sameMonth (Valid_Date y m t) (Valid_Date y' m' t') = (y = y' \<and> m = m')"
| "sameMonth d now = False"

section \<open>The bank import decoder (services/database.ts)\<close>

record BankRecord =
  r_date :: string
  r_description :: string
  r_amount :: real
  r_type :: string

text \<open>The errors \<open>parseCSV\<close> throws; a row error carries the row number \<open>i + 1\<close> of its message.\<close>

datatype CsvError =
    TooFewLines
  | MissingColumn string
  | WrongColumnCount nat
  | InvalidDateFormat nat string
  | InvalidAmount nat string
  | InvalidType nat string
  | TypeError nat

fun error_row :: "CsvError \<Rightarrow> nat option" where
  "error_row TooFewLines = None"
| "error_row (MissingColumn c) = None"
| "error_row (WrongColumnCount n) = Some n"
| "error_row (InvalidDateFormat n s) = Some n"
| "error_row (InvalidAmount n s) = Some n"
| "error_row (InvalidType n s) = Some n"
| "error_row (TypeError n) = Some n"

definition requiredHeaders :: "string list" where
  "requiredHeaders = [''date'', ''description'', ''amount'', ''type'']"

text \<open>
  The object \<open>record\<close> built by \<open>headers.forEach((header, index) => record[header] =
  values[index])\<close>: a later column of the same name overwrites an earlier one.
\<close>

definition row_object :: "string list \<Rightarrow> string list \<Rightarrow> (string \<rightharpoonup> string)" where
  "row_object headers values =
     fold (\<lambda>(header, v) record. record(header \<mapsto> v)) (zip headers values) Map.empty"

text \<open>A property read into a template literal: an absent one prints as \<open>undefined\<close>.\<close>

fun str :: "string option \<Rightarrow> string" where
  "str None = ''undefined''"
| "str (Some s) = s"

text \<open>
  The body of the loop over the data rows, for the line at index \<open>i\<close>. An absent
  \<open>record.date\<close> makes the invalid date, an absent \<open>record.amount\<close> makes \<open>NaN\<close>, and
  \<open>toLowerCase\<close> of an absent \<open>record.type\<close> is a TypeError.
\<close>

definition parse_row ::
  "(string \<Rightarrow> real option) \<Rightarrow> (string \<Rightarrow> JSDate) \<Rightarrow> string list \<Rightarrow> nat \<Rightarrow> string
     \<Rightarrow> CsvError + BankRecord" where
  "parse_row parseFloat newDate headers i line =
     (let values = map trim (js_split CHR '','' line) in
      if length values \<noteq> length headers then Inl (WrongColumnCount (i + 1))
      else
        let record = row_object headers values;
            date = (case record ''date'' of None \<Rightarrow> Invalid_Date | Some d \<Rightarrow> newDate d)
        in
        if isNaN_getTime date then Inl (InvalidDateFormat (i + 1) (str (record ''date'')))
        else
          (case (case record ''amount'' of None \<Rightarrow> None | Some a \<Rightarrow> parseFloat a) of
             None \<Rightarrow> Inl (InvalidAmount (i + 1) (str (record ''amount'')))
           | Some amount \<Rightarrow>
               (case record ''type'' of
                  None \<Rightarrow> Inl (TypeError (i + 1))
                | Some ty \<Rightarrow>
                    let type = toLowerCase ty in
                    if type \<noteq> ''debit'' \<and> type \<noteq> ''credit''
                    then Inl (InvalidType (i + 1) ty)
                    else Inr \<lparr> r_date = str (record ''date''),
                               r_description = str (record ''description''),
                               r_amount = \<bar>amount\<bar>,
                               r_type = type \<rparr>)))"

text \<open>\<open>for (let i = 1; i < lines.length; i++)\<close>, on the lines from index \<open>i\<close> on.\<close>

fun rows_loop ::
  "(string \<Rightarrow> real option) \<Rightarrow> (string \<Rightarrow> JSDate) \<Rightarrow> string list \<Rightarrow> nat \<Rightarrow> string list
     \<Rightarrow> BankRecord list \<Rightarrow> CsvError + BankRecord list" where
  "rows_loop parseFloat newDate headers i [] records = Inr records"
| "rows_loop parseFloat newDate headers i (line # rest) records =
     (case parse_row parseFloat newDate headers i line of
        Inl e \<Rightarrow> Inl e
      | Inr r \<Rightarrow> rows_loop parseFloat newDate headers (i + 1) rest (records @ [r]))"

text \<open>\<open>csvContent.split('\n').filter(line => line.trim())\<close>\<close>

definition csv_lines :: "string \<Rightarrow> string list" where
  "csv_lines csvContent = filter (\<lambda>line. trim line \<noteq> []) (js_split CHR ''\<newline>'' csvContent)"

definition csv_headers :: "string list \<Rightarrow> string list" where
  "csv_headers lines = map (\<lambda>h. toLowerCase (trim h)) (js_split CHR '','' (lines ! 0))"

definition parseCSV ::
  "(string \<Rightarrow> real option) \<Rightarrow> (string \<Rightarrow> JSDate) \<Rightarrow> string \<Rightarrow> CsvError + BankRecord list" where
  "parseCSV parseFloat newDate csvContent =
     (let lines = csv_lines csvContent in
      if length lines < 2 then Inl TooFewLines
      else
        let headers = csv_headers lines in
        (case find (\<lambda>required. required \<notin> set headers) requiredHeaders of
           Some required \<Rightarrow> Inl (MissingColumn required)
         | None \<Rightarrow> rows_loop parseFloat newDate headers 1 (tl lines) []))"

section \<open>A host for concrete runs\<close>

text \<open>
  The theorems below hold for every \<open>parseFloat\<close> and every \<open>newDate\<close>. For runs on
  concrete files two instances are fixed: \<open>parseFloat_dec\<close> reads the longest prefix
  that is a signed decimal literal with an optional exponent (the literal \<open>Infinity\<close>
  has no real value and is not read), and \<open>newDate_iso\<close> reads the date-only form
  \<open>YYYY-MM-DD\<close> with a month from 01 to 12 and a day from 01 to 28, in a host whose
  time zone is UTC, and takes every other text as the invalid date.
\<close>

definition isDigit :: "char \<Rightarrow> bool" where
  "isDigit c = (c \<in> set ''0123456789'')"

definition digits_val :: "string \<Rightarrow> nat" where
  "digits_val ds = foldl (\<lambda>n c. 10 * n + (of_char c - 48)) 0 ds"

definition exponent_factor :: "string \<Rightarrow> real" where
  "exponent_factor w =
     (case w of
        [] \<Rightarrow> 1
      | e # r \<Rightarrow>
          if e = CHR ''e'' \<or> e = CHR ''E'' then
            (let neg = (case r of [] \<Rightarrow> False | c # _ \<Rightarrow> c = CHR ''-'');
                 r' = (case r of [] \<Rightarrow> [] | c # q \<Rightarrow> if c = CHR ''-'' \<or> c = CHR ''+'' then q else r);
                 ds = takeWhile isDigit r'
             in if ds = [] then 1
                else if neg then 1 / 10 ^ digits_val ds else 10 ^ digits_val ds)
          else 1)"

definition parseFloat_dec :: "string \<Rightarrow> real option" where
  "parseFloat_dec s =
     (let t = dropWhile isWhiteSpace s;
          neg = (case t of [] \<Rightarrow> False | c # _ \<Rightarrow> c = CHR ''-'');
          u = (case t of [] \<Rightarrow> [] | c # q \<Rightarrow> if c = CHR ''-'' \<or> c = CHR ''+'' then q else t);
          ip = takeWhile isDigit u;
          v = dropWhile isDigit u;
          fp = (case v of [] \<Rightarrow> [] | c # q \<Rightarrow> if c = CHR ''.'' then takeWhile isDigit q else []);
          w = (case v of [] \<Rightarrow> [] | c # q \<Rightarrow> if c = CHR ''.'' then dropWhile isDigit q else v)
      in if ip = [] \<and> fp = [] then None
         else
           let x = (real (digits_val ip) + real (digits_val fp) / 10 ^ length fp)
                     * exponent_factor w
           in Some (if neg then - x else x))"

definition newDate_iso :: "string \<Rightarrow> JSDate" where
  "newDate_iso s =
     (if length s = 10 \<and> s ! 4 = CHR ''-'' \<and> s ! 7 = CHR ''-''
         \<and> list_all isDigit (take 4 s) \<and> list_all isDigit (take 2 (drop 5 s))
         \<and> list_all isDigit (drop 8 s)
         \<and> 1 \<le> digits_val (take 2 (drop 5 s)) \<and> digits_val (take 2 (drop 5 s)) \<le> 12
         \<and> 1 \<le> digits_val (drop 8 s) \<and> digits_val (drop 8 s) \<le> 28
      then Valid_Date (int (digits_val (take 4 s))) (digits_val (take 2 (drop 5 s)) - 1)
             (digits_val (drop 8 s) - 1)
      else Invalid_Date)"

section \<open>Messages of the decoder's errors\<close>

text \<open>The decimal text of a row number in a template literal.\<close>

fun toString :: "nat \<Rightarrow> string" where
  "toString n =
     (if n < 10 then [''0123456789'' ! n]
      else toString (n div 10) @ [''0123456789'' ! (n mod 10)])"

declare toString.simps [simp del]

definition quoted :: "string \<Rightarrow> string" where
  "quoted s = [CHR 0x27] @ s @ [CHR 0x27]"

fun error_message :: "CsvError \<Rightarrow> string" where
  "error_message TooFewLines = ''CSV file must have at least a header row and one data row''"
| "error_message (MissingColumn required) = ''CSV must contain column: '' @ required"
| "error_message (WrongColumnCount n) =
     ''Row '' @ toString n @ '' has incorrect number of columns''"
| "error_message (InvalidDateFormat n d) =
     ''Invalid date format in row '' @ toString n @ '': '' @ d"
| "error_message (InvalidAmount n a) = ''Invalid amount in row '' @ toString n @ '': '' @ a"
| "error_message (InvalidType n t) =
     ''Invalid type in row '' @ toString n @ '': '' @ t @ ''. Must be '' @ quoted ''debit''
       @ '' or '' @ quoted ''credit''"
| "error_message (TypeError n) =
     ''Cannot read properties of undefined (reading '' @ quoted ''toLowerCase'' @ '')''"

text \<open>
  The validation rules of the decoder, as a predicate on one data line: the column
  count matches the header, the date parses, the amount is a number and the type is
  \<open>debit\<close> or \<open>credit\<close> in any letter case.
\<close>

definition row_valid ::
  "(string \<Rightarrow> real option) \<Rightarrow> (string \<Rightarrow> JSDate) \<Rightarrow> string list \<Rightarrow> string \<Rightarrow> bool" where
  "row_valid parseFloat newDate headers line =
     (let values = map trim (js_split CHR '','' line);
          record = row_object headers values
      in length values = length headers
         \<and> (case record ''date'' of None \<Rightarrow> False | Some d \<Rightarrow> \<not> isNaN_getTime (newDate d))
         \<and> (case record ''amount'' of None \<Rightarrow> False | Some a \<Rightarrow> parseFloat a \<noteq> None)
         \<and> (case record ''type'' of
              None \<Rightarrow> False
            | Some t \<Rightarrow> toLowerCase t = ''debit'' \<or> toLowerCase t = ''credit''))"

text \<open>The cell of a data line that \<open>record[name]\<close> reads.\<close>

definition cell :: "string list \<Rightarrow> string \<Rightarrow> string \<Rightarrow> string option" where
  "cell headers line name = row_object headers (map trim (js_split CHR '','' line)) name"

section \<open>Categories, expenses and the transaction store\<close>

datatype Category =
  food | transport | shopping | entertainment | bills | subscriptions | groceries | health | other

datatype Source = MANUAL | AUTO

text \<open>
  An \<open>Expense\<close>; its \<open>id\<close> is absent (\<open>Omit<Expense, 'id'>\<close>) until the store has
  assigned one.
\<close>

record Expense =
  eid :: "string option"
  description :: string
  amount :: real
  category :: Category
  date :: JSDate
  isImpulse :: bool
  source :: Source

record Flags =
  impulse :: bool
  habit :: bool

definition bankRecordToExpense :: "(string \<Rightarrow> JSDate) \<Rightarrow> BankRecord \<Rightarrow> Expense" where
  "bankRecordToExpense newDate record =
     (let d = toLowerCase (r_description record);
          category =
            (if js_includes d ''food'' \<or> js_includes d ''restaurant'' \<or> js_includes d ''cafe''
                \<or> js_includes d ''swiggy'' \<or> js_includes d ''zomato'' then food
             else if js_includes d ''uber'' \<or> js_includes d ''ola'' \<or> js_includes d ''taxi''
                \<or> js_includes d ''bus'' \<or> js_includes d ''metro'' then transport
             else if js_includes d ''amazon'' \<or> js_includes d ''flipkart''
                \<or> js_includes d ''myntra'' \<or> js_includes d ''shopping'' then shopping
             else if js_includes d ''netflix'' \<or> js_includes d ''prime''
                \<or> js_includes d ''hotstar'' \<or> js_includes d ''movie'' then entertainment
             else if js_includes d ''electricity'' \<or> js_includes d ''water''
                \<or> js_includes d ''gas'' \<or> js_includes d ''internet''
                \<or> js_includes d ''phone'' then bills
             else if js_includes d ''subscription'' \<or> js_includes d ''spotify''
                \<or> js_includes d ''apple music'' then subscriptions
             else if js_includes d ''grocery'' \<or> js_includes d ''supermarket''
                \<or> js_includes d ''bigbasket'' then groceries
             else if js_includes d ''hospital'' \<or> js_includes d ''medical''
                \<or> js_includes d ''pharmacy'' then health
             else other)
      in \<lparr> eid = None,
           description = r_description record,
           amount = r_amount record,
           category = category,
           date = newDate (r_date record),
           isImpulse = False,
           source = AUTO \<rparr>)"

text \<open>
  The category inference for imports as the specification words it (section 6): a
  lookup table from keywords to categories over the lower-cased description. The
  first entry with a keyword that occurs in the description gives the category; a
  description that matches none is \<open>other\<close>. It is stated apart from
  \<open>bankRecordToExpense\<close>, to compare the two.
\<close>

definition categoryKeywords :: "(Category \<times> string list) list" where
  "categoryKeywords =
     [(food, [''food'', ''restaurant'', ''cafe'', ''swiggy'', ''zomato'']),
      (transport, [''uber'', ''ola'', ''taxi'', ''bus'', ''metro'']),
      (shopping, [''amazon'', ''flipkart'', ''myntra'', ''shopping'']),
      (entertainment, [''netflix'', ''prime'', ''hotstar'', ''movie'']),
      (bills, [''electricity'', ''water'', ''gas'', ''internet'', ''phone'']),
      (subscriptions, [''subscription'', ''spotify'', ''apple music'']),
      (groceries, [''grocery'', ''supermarket'', ''bigbasket'']),
      (health, [''hospital'', ''medical'', ''pharmacy''])]"

definition inferCategory :: "string \<Rightarrow> Category" where
  "inferCategory text =
     (case find (\<lambda>(c, keywords). list_ex (js_includes (toLowerCase text)) keywords)
             categoryKeywords of
        None \<Rightarrow> other
      | Some (c, keywords) \<Rightarrow> c)"

text \<open>
  The Firestore collection \<open>expenses\<close>: each document has its id, the owner's uid and
  the expense's fields. Auto-ids come from the store's own supply \<open>autoId\<close>, read at
  the counter \<open>nextAuto\<close>. Every operation throws when no user is signed in.
\<close>

record Store =
  currentUser :: "string option"
  docs :: "(string \<times> string \<times> Expense) list"
  autoId :: "nat \<Rightarrow> string"
  nextAuto :: nat

definition addExpense :: "Store \<Rightarrow> Expense \<Rightarrow> string + (string \<times> Store)" where
  "addExpense st expense =
     (case currentUser st of
        None \<Rightarrow> Inl ''User not authenticated''
      | Some uid \<Rightarrow>
          let i = autoId st (nextAuto st)
          in Inr (i, st\<lparr> docs := docs st @ [(i, uid, expense)], nextAuto := nextAuto st + 1 \<rparr>))"

text \<open>
  \<open>addExpenses\<close> writes in batches of 500; the batches are committed in order, so the
  documents and the ids returned are those of one write per expense, in order.
\<close>

fun batch_set :: "string \<Rightarrow> Store \<Rightarrow> Expense list \<Rightarrow> string list \<Rightarrow> string list \<times> Store" where
  "batch_set uid st [] ids = (ids, st)"
| "batch_set uid st (expense # rest) ids =
     (let i = autoId st (nextAuto st)
      in batch_set uid
           (st\<lparr> docs := docs st @ [(i, uid, expense)], nextAuto := nextAuto st + 1 \<rparr>)
           rest (ids @ [i]))"

definition addExpenses :: "Store \<Rightarrow> Expense list \<Rightarrow> string + (string list \<times> Store)" where
  "addExpenses st expenses =
     (case currentUser st of
        None \<Rightarrow> Inl ''User not authenticated''
      | Some uid \<Rightarrow> Inr (batch_set uid st expenses []))"

definition deleteExpense :: "Store \<Rightarrow> string \<Rightarrow> string + Store" where
  "deleteExpense st i =
     (case currentUser st of
        None \<Rightarrow> Inl ''User not authenticated''
      | Some uid \<Rightarrow> Inr (st\<lparr> docs := filter (\<lambda>(j, u, e). j \<noteq> i) (docs st) \<rparr>))"

section \<open>The upload component (components/CSVUpload.tsx)\<close>

text \<open>
  One run of \<open>handleFileSelect\<close> on a selected file ends in the error state with a
  message (the message of whatever was thrown inside its \<open>try\<close>), or calls
  \<open>onUploadSuccess\<close> with the new expenses. The run also records the store it leaves
  and the expenses it handed to \<open>classifyExpense\<close>, in order. \<open>classifyExpense\<close> lives
  in services/ai.ts and is a parameter here. The component's flags for the spinner
  and its toasts are left out. The source file holds a second copy of the component
  that skips credit rows inside the loop and leaves the write to its caller; the
  copy modelled is the first, which writes through \<open>addExpenses\<close>.
\<close>

datatype UploadOutcome = UploadError string | UploadSuccess "Expense list"

record UploadRun =
  outcome :: UploadOutcome
  store_after :: Store
  classified :: "Expense list"

text \<open>\<open>for (const record of debitRecords)\<close>\<close>

fun convert_loop ::
  "(Expense \<Rightarrow> Expense list \<Rightarrow> Flags) \<Rightarrow> (string \<Rightarrow> JSDate) \<Rightarrow> Expense list \<Rightarrow> BankRecord list
     \<Rightarrow> Expense list \<Rightarrow> Expense list \<Rightarrow> Expense list \<times> Expense list" where
  "convert_loop classifyExpense newDate existing [] expensesToAdd calls =
     (expensesToAdd, calls)"
| "convert_loop classifyExpense newDate existing (record # rest) expensesToAdd calls =
     (let baseExpense = bankRecordToExpense newDate record;
          flags = classifyExpense baseExpense existing;
          expense = baseExpense\<lparr> isImpulse := impulse flags \<rparr>
      in convert_loop classifyExpense newDate existing rest
           (expensesToAdd @ [expense]) (calls @ [baseExpense]))"

text \<open>\<open>expensesToAdd.map((exp, index) => ({ ...exp, id: ids[index] }))\<close>\<close>

definition with_ids :: "Expense list \<Rightarrow> string list \<Rightarrow> Expense list" where
  "with_ids expensesToAdd ids =
     map (\<lambda>index. (expensesToAdd ! index)
                     \<lparr> eid := (if index < length ids then Some (ids ! index) else None) \<rparr>)
       [0 ..< length expensesToAdd]"

definition handleFileSelect ::
  "(Expense \<Rightarrow> Expense list \<Rightarrow> Flags) \<Rightarrow> (string \<Rightarrow> real option) \<Rightarrow> (string \<Rightarrow> JSDate)
     \<Rightarrow> string \<Rightarrow> string \<Rightarrow> Expense list \<Rightarrow> Store \<Rightarrow> UploadRun" where
  "handleFileSelect classifyExpense parseFloat newDate fileName csvContent existing st =
     (if \<not> endsWith (toLowerCase fileName) ''.csv''
      then \<lparr> outcome = UploadError ''Please select a CSV file only.'',
             store_after = st, classified = [] \<rparr>
      else
        (case parseCSV parseFloat newDate csvContent of
           Inl e \<Rightarrow> \<lparr> outcome = UploadError (error_message e),
                       store_after = st, classified = [] \<rparr>
         | Inr bankRecords \<Rightarrow>
             if length bankRecords = 0
             then \<lparr> outcome = UploadError ''No valid records found in CSV'',
                    store_after = st, classified = [] \<rparr>
             else
               let debitRecords = filter (\<lambda>r. r_type r = ''debit'') bankRecords in
               if length debitRecords = 0
               then \<lparr> outcome = UploadError ''No debit transactions found in CSV'',
                      store_after = st, classified = [] \<rparr>
               else
                 (case convert_loop classifyExpense newDate existing debitRecords [] [] of
                    (expensesToAdd, calls) \<Rightarrow>
                      (case addExpenses st expensesToAdd of
                         Inl message \<Rightarrow>
                           \<lparr> outcome = UploadError message,
                             store_after = st, classified = calls \<rparr>
                       | Inr (ids, st') \<Rightarrow>
                           \<lparr> outcome = UploadSuccess (with_ids expensesToAdd ids),
                             store_after = st', classified = calls \<rparr>))))"

section \<open>The dashboard page (pages/Index.tsx)\<close>

datatype Severity = good | warning | bad

text \<open>
  A \<open>HabitAlert\<close>, with the fields the page and the alert card read. Its type is
  declared in lib/mockData.ts, which is not among the sources.
\<close>

record HabitAlert =
  a_id :: string
  title :: string
  a_description :: string
  suggestion :: string
  severity :: Severity
  savingPotential :: real

record SavingsSummary =
  total :: real
  prevented :: real
  reduced :: real
  optimized :: real

text \<open>
  The functions of services/ai.ts that the page calls. The module is not among the
  sources, so each is a parameter. Of the result of \<open>classifyExpense\<close> the callers
  read the flags only. \<open>reconcileSavingsLedger\<close> reads and writes the browser's local
  storage, which it takes and returns as a state of type \<open>'l\<close>; its third argument is
  the optional \<open>now\<close>.
\<close>

record 'l Services =
  classifyExpense :: "Expense \<Rightarrow> Expense list \<Rightarrow> Flags"
  computeCategoryCap :: "Expense list \<Rightarrow> HabitAlert list \<Rightarrow> Category \<Rightarrow> JSDate \<Rightarrow> real option"
  recomputeAlerts :: "Expense list \<Rightarrow> HabitAlert list"
  reconcileSavingsLedger ::
    "string \<Rightarrow> Expense list \<Rightarrow> JSDate option \<Rightarrow> 'l \<Rightarrow> SavingsSummary \<times> 'l"

text \<open>
  The notifications of the page; the texts show amounts with \<open>toFixed(0)\<close>, the
  values carry the amounts themselves.
\<close>

datatype Toast =
    Spending_capped Category real
  | Spending_optimized real
  | Expense_added string real Category
  | Failed_to_add_expense
  | Expense_deleted
  | Failed_to_delete_expense

text \<open>
  The state a handler reads and writes: the component's \<open>useState\<close> cells for the
  expenses, the alerts, the summary shown and the optimization toggle, the user key,
  the transaction store, the local storage behind the savings ledger and the toasts
  shown so far. The cells of the modals, the loading overlay and the advisory chat
  are left out, as are the calls to the advisory service, which touch only those.
\<close>

record 'l Page =
  expenses :: "Expense list"
  alerts :: "HabitAlert list"
  savedSummary :: SavingsSummary
  applySavings :: bool
  userKey :: string
  store :: Store
  ledger :: 'l
  toasts :: "Toast list"

record NewExpense =
  n_description :: string
  n_amount :: real
  n_category :: Category

text \<open>Lines 188 to 219 of \<open>handleAddExpense\<close>: classify, persist, recompute.\<close>

definition commitExpense :: "'l Services \<Rightarrow> NewExpense \<Rightarrow> real \<Rightarrow> JSDate \<Rightarrow> 'l Page \<Rightarrow> 'l Page" where
  "commitExpense sv newExpense finalAmount now p =
     (let expenseBase = \<lparr> eid = None,
                          description = n_description newExpense,
                          amount = finalAmount,
                          category = n_category newExpense,
                          date = now,
                          isImpulse = False,
                          source = MANUAL \<rparr>;
          flags = classifyExpense sv expenseBase (expenses p);
          expenseToAdd = expenseBase\<lparr> isImpulse := impulse flags \<rparr>
      in case addExpense (store p) expenseToAdd of
           Inl message \<Rightarrow> p\<lparr> toasts := toasts p @ [Failed_to_add_expense] \<rparr>
         | Inr (i, st') \<Rightarrow>
             let newExpenseWithId = expenseToAdd\<lparr> eid := Some i \<rparr>;
                 nextExpenses = newExpenseWithId # expenses p;
                 nextAlerts = recomputeAlerts sv nextExpenses
             in case reconcileSavingsLedger sv (userKey p) nextExpenses (Some now) (ledger p) of
                  (summary, ledger') \<Rightarrow>
                    p\<lparr> expenses := nextExpenses,
                       alerts := nextAlerts,
                       savedSummary := summary,
                       store := st',
                       ledger := ledger',
                       toasts := toasts p
                         @ [Expense_added (description newExpenseWithId)
                              (amount newExpenseWithId) (category newExpenseWithId)] \<rparr>)"

text \<open>The month-to-date spend of a category, as \<open>handleAddExpense\<close> computes it.\<close>

definition monthTotal :: "Expense list \<Rightarrow> Category \<Rightarrow> JSDate \<Rightarrow> real" where
  "monthTotal es c now =
     foldl (\<lambda>s e. s + amount e) 0
       (filter (\<lambda>e. sameMonth (date e) now \<and> category e = c) es)"

definition handleAddExpense :: "'l Services \<Rightarrow> NewExpense \<Rightarrow> JSDate \<Rightarrow> 'l Page \<Rightarrow> 'l Page" where
  "handleAddExpense sv newExpense now p =
     (let badAlerts = filter (\<lambda>a. severity a = bad) (alerts p) in
      if applySavings p then
        (case computeCategoryCap sv (expenses p) badAlerts (n_category newExpense) now of
           None \<Rightarrow> commitExpense sv newExpense (n_amount newExpense) now p
         | Some cap \<Rightarrow>
             let remaining = max 0 (cap - monthTotal (expenses p) (n_category newExpense) now) in
             if remaining \<le> 0
             then p\<lparr> toasts := toasts p
                       @ [Spending_capped (n_category newExpense) (n_amount newExpense)] \<rparr>
             else if n_amount newExpense > remaining
             then commitExpense sv newExpense remaining now
                    (p\<lparr> toasts := toasts p
                          @ [Spending_optimized (n_amount newExpense - remaining)] \<rparr>)
             else commitExpense sv newExpense (n_amount newExpense) now p)
      else commitExpense sv newExpense (n_amount newExpense) now p)"

definition handleDeleteExpense :: "'l Services \<Rightarrow> string \<Rightarrow> 'l Page \<Rightarrow> 'l Page" where
  "handleDeleteExpense sv i p =
     (case find (\<lambda>e. eid e = Some i) (expenses p) of
        None \<Rightarrow> p
      | Some target \<Rightarrow>
          if source target \<noteq> MANUAL then p
          else
            (case deleteExpense (store p) i of
               Inl message \<Rightarrow> p\<lparr> toasts := toasts p @ [Failed_to_delete_expense] \<rparr>
             | Inr st' \<Rightarrow>
                 let next = filter (\<lambda>e. eid e \<noteq> Some i) (expenses p);
                     nextAlerts = recomputeAlerts sv next
                 in case reconcileSavingsLedger sv (userKey p) next None (ledger p) of
                      (summary, ledger') \<Rightarrow>
                        p\<lparr> expenses := next,
                           alerts := nextAlerts,
                           savedSummary := summary,
                           store := st',
                           ledger := ledger',
                           toasts := toasts p @ [Expense_deleted] \<rparr>))"

text \<open>
  The click handler of a row of \<open>ExpenseList\<close> (components/dashboard/ExpenseList.tsx);
  \<open>ok\<close> is the answer to \<open>window.confirm\<close>. The rows are expenses of the page, which
  have ids; for a row without one the model makes no call.
\<close>

definition ExpenseList_onClick :: "'l Services \<Rightarrow> Expense \<Rightarrow> bool \<Rightarrow> 'l Page \<Rightarrow> 'l Page" where
  "ExpenseList_onClick sv expense ok p =
     (if source expense = MANUAL then
        (if ok then
           (case eid expense of
              None \<Rightarrow> p
            | Some i \<Rightarrow> handleDeleteExpense sv i p)
         else p)
      else p)"

definition handleCSVUploadSuccess :: "'l Services \<Rightarrow> Expense list \<Rightarrow> 'l Page \<Rightarrow> 'l Page" where
  "handleCSVUploadSuccess sv newExpenses p =
     (let nextExpenses = newExpenses @ expenses p;
          nextAlerts = recomputeAlerts sv nextExpenses
      in case reconcileSavingsLedger sv (userKey p) nextExpenses None (ledger p) of
           (summary, ledger') \<Rightarrow>
             p\<lparr> expenses := nextExpenses,
                alerts := nextAlerts,
                savedSummary := summary,
                ledger := ledger' \<rparr>)"

text \<open>
  The page reflects the store: every expense of the page that has an id is a document
  of the store under that id, with the same source. This is how the page gets its
  expenses: from \<open>getExpenses\<close>, which reads the documents with their ids, and from
  the ids that \<open>addExpense\<close> and \<open>addExpenses\<close> return for what they have written.
\<close>

definition page_in_store :: "'l Page \<Rightarrow> bool" where
  "page_in_store p =
     list_all
       (\<lambda>e. case eid e of
              None \<Rightarrow> True
            | Some i \<Rightarrow> list_ex (\<lambda>(j, u, d). j = i \<and> source d = source e) (docs (store p)))
       (expenses p)"

section \<open>The classifier and the savings ledger, as the specification describes them\<close>

text \<open>
  Modelled from the spec: the essential / non-essential table of the Category Model
  in services/ai.ts, which is not among the sources. The spec names the
  non-essential categories as the food, shopping and entertainment class.
\<close>

definition nonEssential :: "Category \<Rightarrow> bool" where
  "nonEssential c = (c = food \<or> c = shopping \<or> c = entertainment)"

text \<open>
  Modelled from the spec: the impulse threshold of the classifier in services/ai.ts,
  which is not among the sources: an amount of 500 currency units.
\<close>

definition IMPULSE_THRESHOLD :: real where
  "IMPULSE_THRESHOLD = 500"

text \<open>
  Modelled from the spec: the habit threshold of the classifier in services/ai.ts,
  which is not among the sources: 4 occurrences within the month.
\<close>

definition HABIT_THRESHOLD :: nat where
  "HABIT_THRESHOLD = 4"

text \<open>
  Modelled from the spec: \<open>classifyExpense\<close> of services/ai.ts, which is not among
  the sources (section 4.1, \<open>classify(transaction, history)\<close>). Impulse: the category
  is non-essential and the amount exceeds the threshold. Habit: the category has
  occurred 4 or more times within the current calendar month in the history,
  the candidate included. The current month is that of the clock \<open>now\<close>, passed
  explicitly.
\<close>

definition classify :: "JSDate \<Rightarrow> Expense \<Rightarrow> Expense list \<Rightarrow> Flags" where
  "classify now transaction history =
     \<lparr> impulse = (nonEssential (category transaction)
                   \<and> amount transaction > IMPULSE_THRESHOLD),
       habit = (HABIT_THRESHOLD
                  \<le> length (filter (\<lambda>e. category e = category transaction
                                         \<and> sameMonth (date e) now)
                              (transaction # history))) \<rparr>"

text \<open>
  Modelled from the spec: the saving types of services/ai.ts, which is not among the
  sources (section 3): a transaction blocked entirely by a cap, a transaction whose
  amount a cap cut down, and any other reduction.
\<close>

datatype SavingType = PREVENTED | REDUCED | OPTIMIZED

text \<open>
  Modelled from the spec: the \<open>SavingsLedgerEntry\<close> of services/ai.ts, which is not
  among the sources (section 3): an amount saved, keyed by a calendar period (year
  and month index; none for an invalid date) and a saving type.
\<close>

record SavingsLedgerEntry =
  period :: "(int \<times> nat) option"
  savingType :: SavingType
  saved :: real

text \<open>
  Modelled from the spec: the calendar period of a date (section 3, year and month).
\<close>

fun period_of :: "JSDate \<Rightarrow> (int \<times> nat) option" where
  "period_of Invalid_Date = None"
| "period_of (Valid_Date y m t) = Some (y, m)"

text \<open>
  Modelled from the spec: the persisted ledger of services/ai.ts (section 6): under
  the key of a user, the entries of that user.
\<close>

type_synonym SavingsLedger = "string \<Rightarrow> SavingsLedgerEntry list"

text \<open>
  Modelled from the spec: the residual saving of one transaction (section 4.4): the
  difference between its pre-cap requested amount, if recorded, and its committed
  amount. The \<open>Expense\<close> of the sources has no field for the requested amount, so
  what is recorded for a transaction is the parameter \<open>recorded\<close>: the type of the
  saving and the amount requested.
\<close>

definition residual ::
  "(Expense \<Rightarrow> (SavingType \<times> real) option) \<Rightarrow> Expense \<Rightarrow> SavingsLedgerEntry list" where
  "residual recorded transaction =
     (case recorded transaction of
        None \<Rightarrow> []
      | Some (ty, requested) \<Rightarrow>
          if amount transaction < requested
          then [\<lparr> period = period_of (date transaction), savingType = ty,
                  saved = requested - amount transaction \<rparr>]
          else [])"

text \<open>
  Modelled from the spec: one bucket of the summary (section 3): the sum of the
  entries of one saving type.
\<close>

definition bucket :: "SavingType \<Rightarrow> SavingsLedgerEntry list \<Rightarrow> real" where
  "bucket ty entries = sum_list (map saved (filter (\<lambda>e. savingType e = ty) entries))"

text \<open>
  Modelled from the spec: the \<open>SavingsSummary\<close> as the aggregate over a ledger
  (section 3): the sum of all entries as the total, and the three buckets.
\<close>

definition summarise :: "SavingsLedgerEntry list \<Rightarrow> SavingsSummary" where
  "summarise entries =
     \<lparr> total = sum_list (map saved entries),
       prevented = bucket PREVENTED entries,
       reduced = bucket REDUCED entries,
       optimized = bucket OPTIMIZED entries \<rparr>"

text \<open>
  Modelled from the spec: \<open>reconcileSavingsLedger\<close> of services/ai.ts, which is not
  among the sources (section 4.4, \<open>reconcile({ userKey, transactions, asOf })\<close>). The
  residual savings are computed from the current transaction set, persisted under
  the user's key (case-insensitive) in place of what was there, and aggregated into
  the summary. The spec gives no rule by which the as-of time enters the result.
\<close>

definition reconcile ::
  "(Expense \<Rightarrow> (SavingType \<times> real) option) \<Rightarrow> string \<Rightarrow> Expense list \<Rightarrow> JSDate option
     \<Rightarrow> SavingsLedger \<Rightarrow> SavingsSummary \<times> SavingsLedger" where
  "reconcile recorded uk transactions asOf lg =
     (let key = toLowerCase uk;
          entries = concat (map (residual recorded) transactions);
          lg' = lg(key := entries)
      in (summarise (lg' key), lg'))"

section \<open>Example files\<close>

text \<open>
  Bank statements for concrete runs: one debit and one credit row with negative
  amounts; a single credit row; a row with a non-numeric amount on the third line
  of the file, after a blank line; two rows with non-numeric amounts; and a file
  whose header has no \<open>type\<close> column.
\<close>

definition statement_csv :: string where
  "statement_csv =
     ''date,description,amount,type\<newline>2024-01-05,Swiggy,-250.5,debit\<newline>2024-01-06,Refund,-40,credit''"

definition credits_csv :: string where
  "credits_csv = ''date,description,amount,type\<newline>2024-01-06,Salary,1000,credit''"

definition broken_csv :: string where
  "broken_csv = ''date,description,amount,type\<newline>\<newline>2024-01-05,Swiggy,abc,debit''"

definition two_bad_csv :: string where
  "two_bad_csv =
     ''date,description,amount,type\<newline>2024-01-05,Swiggy,abc,debit\<newline>2024-01-06,Uber,xyz,debit''"

definition headless_csv :: string where
  "headless_csv = ''date,description,amount\<newline>2024-01-05,Swiggy,abc''"

text \<open>
  A row whose amount cell starts with a number and goes on with letters; and a
  statement as a spreadsheet on Windows writes it: lines ending in carriage return
  and newline, a header in other letter cases with padded cells, the credit row
  first.
\<close>

definition prefix_csv :: string where
  "prefix_csv = ''date,description,amount,type\<newline>2024-01-05,Swiggy,12abc,debit''"

definition CRLF :: string where
  "CRLF = [CHR 0x0D, CHR ''\<newline>'']"

definition windows_csv :: string where
  "windows_csv =
     ''Date, Description ,AMOUNT,Type'' @ CRLF @ ''2024-01-06,Refund,-40,credit'' @ CRLF
       @ ''2024-01-05,Swiggy,-250.5,DEBIT'' @ CRLF"

text \<open>A store with a signed-in user and no documents, and a day in January 2024.\<close>

definition example_store :: Store where
  "example_store =
     \<lparr> currentUser = Some ''u1'', docs = [], autoId = (\<lambda>n. ''doc'' @ toString n),
       nextAuto = 0 \<rparr>"

definition today :: JSDate where
  "today = Valid_Date 2024 0 8"

text \<open>
  Services for concrete runs: the classifier and the ledger of the specification,
  with nothing recorded for any transaction (an \<open>Expense\<close> has no field for a
  requested amount), no alerts recomputed, and a cap service that answers 500 for food
  while there is a bad alert and \<open>null\<close> otherwise.
\<close>

definition example_services :: "SavingsLedger Services" where
  "example_services =
     \<lparr> classifyExpense = classify today,
       computeCategoryCap = (\<lambda>es badAlerts c now. if badAlerts \<noteq> [] \<and> c = food then Some 500 else None),
       recomputeAlerts = (\<lambda>es. []),
       reconcileSavingsLedger = reconcile (\<lambda>e. None) \<rparr>"

text \<open>
  A page of the guest user in January 2024 with the optimization toggle on, one bad
  alert, a manual food expense of 450 and an imported food expense of 50.
\<close>

definition dinner :: Expense where
  "dinner = \<lparr> eid = Some ''m1'', description = ''Dinner'', amount = 450, category = food,
              date = Valid_Date 2024 0 2, isImpulse = False, source = MANUAL \<rparr>"

definition swiggy :: Expense where
  "swiggy = \<lparr> eid = Some ''a1'', description = ''Swiggy'', amount = 50, category = food,
              date = Valid_Date 2024 0 4, isImpulse = False, source = AUTO \<rparr>"

definition food_alert :: HabitAlert where
  "food_alert = \<lparr> a_id = ''food-habit'', title = ''Frequent food orders'',
                  a_description = ''4 food expenses this month'',
                  suggestion = ''Cook at home'', severity = bad, savingPotential = 300 \<rparr>"

definition example_page :: "SavingsLedger Page" where
  "example_page =
     \<lparr> expenses = [dinner, swiggy],
       alerts = [food_alert],
       savedSummary = \<lparr> total = 0, prevented = 0, reduced = 0, optimized = 0 \<rparr>,
       applySavings = True,
       userKey = ''guest'',
       store = example_store\<lparr> docs := [(''m1'', ''u1'', dinner), (''a1'', ''u1'', swiggy)] \<rparr>,
       ledger = (\<lambda>key. []),
       toasts = [] \<rparr>"

definition pizza :: NewExpense where
  "pizza = \<lparr> n_description = ''Pizza'', n_amount = 100, n_category = food \<rparr>"

section \<open>Properties of the decoder\<close>

lemma parse_row_valid_iff:
  "row_valid pf nd hs l \<longleftrightarrow> (\<exists>r. parse_row pf nd hs i l = Inr r)"
  by (auto simp: row_valid_def parse_row_def Let_def split: option.splits if_splits)

lemma parse_row_error_row:
  "parse_row pf nd hs i l = Inl e \<Longrightarrow> error_row e = Some (i + 1)"
  by (auto simp: parse_row_def Let_def split: option.splits if_splits)

lemma parse_row_amount:
  "parse_row pf nd hs i l = Inr r \<Longrightarrow> cell hs l ''amount'' = Some a \<Longrightarrow> pf a = Some x
     \<Longrightarrow> r_amount r = \<bar>x\<bar>"
  by (auto simp: parse_row_def cell_def Let_def split: option.splits if_splits)

lemma parse_row_cells:
  assumes "parse_row pf nd hs i l = Inr r"
  shows "r_date r = str (cell hs l ''date'')
         \<and> r_description r = str (cell hs l ''description'')
         \<and> (\<exists>a x. cell hs l ''amount'' = Some a \<and> pf a = Some x \<and> r_amount r = \<bar>x\<bar>)
         \<and> (\<exists>t. cell hs l ''type'' = Some t \<and> r_type r = toLowerCase t)"
  using assms
  by (auto simp: parse_row_def cell_def Let_def split: option.splits if_splits)

lemma parse_row_any_index:
  "parse_row pf nd hs i l = Inr r \<Longrightarrow> parse_row pf nd hs j l = Inr r"
  by (auto simp: parse_row_def Let_def split: option.splits if_splits)

lemma parse_row_debit:
  assumes "row_valid pf nd hs l"
    and "cell hs l ''date'' = Some d" and "cell hs l ''description'' = Some desc"
    and "cell hs l ''amount'' = Some a" and "pf a = Some x"
    and "cell hs l ''type'' = Some t"
  shows "parse_row pf nd hs i l
           = Inr \<lparr> r_date = d, r_description = desc, r_amount = \<bar>x\<bar>, r_type = toLowerCase t \<rparr>"
proof -
  from assms(1) obtain r where r: "parse_row pf nd hs i l = Inr r"
    using parse_row_valid_iff[of pf nd hs l i] by auto
  from parse_row_cells[OF r] assms(2-6)
  have "r = \<lparr> r_date = d, r_description = desc, r_amount = \<bar>x\<bar>, r_type = toLowerCase t \<rparr>"
    by auto
  with r show ?thesis by simp
qed

lemma parse_row_type:
  assumes "row_valid pf nd hs l" and "cell hs l ''type'' = Some t"
  shows "\<exists>r. parse_row pf nd hs i l = Inr r \<and> r_type r = toLowerCase t"
proof -
  from assms(1) obtain r where r: "parse_row pf nd hs i l = Inr r"
    using parse_row_valid_iff[of pf nd hs l i] by auto
  from parse_row_cells[OF r] assms(2) show ?thesis using r by auto
qed

lemma rows_loop_valid:
  "\<forall>l \<in> set ls. row_valid pf nd hs l \<Longrightarrow>
     \<exists>recs. rows_loop pf nd hs i ls acc = Inr (acc @ recs) \<and> length recs = length ls
        \<and> (\<forall>k < length ls. parse_row pf nd hs (i + k) (ls ! k) = Inr (recs ! k))"
proof (induction ls arbitrary: i acc)
  case Nil
  then show ?case by simp
next
  case (Cons l ls)
  from Cons.prems obtain r where r: "parse_row pf nd hs i l = Inr r"
    using parse_row_valid_iff[of pf nd hs l i] by auto
  from Cons.prems have "\<forall>l \<in> set ls. row_valid pf nd hs l" by simp
  from Cons.IH[OF this, of "i + 1" "acc @ [r]"] obtain recs where
    recs: "rows_loop pf nd hs (i + 1) ls (acc @ [r]) = Inr ((acc @ [r]) @ recs)"
      "length recs = length ls"
      "\<forall>k < length ls. parse_row pf nd hs (i + 1 + k) (ls ! k) = Inr (recs ! k)"
    by blast
  have "\<forall>k < length (l # ls). parse_row pf nd hs (i + k) ((l # ls) ! k) = Inr ((r # recs) ! k)"
  proof (intro allI impI)
    fix k assume "k < length (l # ls)"
    then show "parse_row pf nd hs (i + k) ((l # ls) ! k) = Inr ((r # recs) ! k)"
      using r recs(3) by (cases k) auto
  qed
  with r recs show ?case
    by (intro exI[of _ "r # recs"]) simp
qed

lemma rows_loop_first_invalid:
  "\<forall>l \<in> set pre. row_valid pf nd hs l \<Longrightarrow> \<not> row_valid pf nd hs l \<Longrightarrow>
     \<exists>e. rows_loop pf nd hs i (pre @ l # post) acc = Inl e
        \<and> parse_row pf nd hs (i + length pre) l = Inl e"
proof (induction pre arbitrary: i acc)
  case Nil
  then obtain e where "parse_row pf nd hs i l = Inl e"
    using parse_row_valid_iff[of pf nd hs l i] by (cases "parse_row pf nd hs i l") auto
  then show ?case by simp
next
  case (Cons a pre)
  from Cons.prems obtain r where r: "parse_row pf nd hs i a = Inr r"
    using parse_row_valid_iff[of pf nd hs a i] by auto
  from Cons.prems have "\<forall>l \<in> set pre. row_valid pf nd hs l" by simp
  from Cons.IH[OF this Cons.prems(2), of "i + 1" "acc @ [r]"] r show ?case by simp
qed

lemma rows_loop_length:
  "rows_loop pf nd hs i ls acc = Inr recs \<Longrightarrow> length recs = length acc + length ls"
  by (induction ls arbitrary: i acc) (auto split: sum.splits)

lemma find_required_None:
  "(\<forall>required \<in> set requiredHeaders. required \<in> set hs)
     \<Longrightarrow> find (\<lambda>required. required \<notin> set hs) requiredHeaders = None"
  by (simp add: find_None_iff)

lemma parseCSV_Inr_length:
  assumes "parseCSV pf nd csv = Inr recs"
  shows "length recs = length (tl (csv_lines csv)) \<and> 2 \<le> length (csv_lines csv)"
proof -
  from assms have len: "\<not> length (csv_lines csv) < 2"
    by (auto simp: parseCSV_def Let_def split: if_splits)
  with assms have "rows_loop pf nd (csv_headers (csv_lines csv)) 1 (tl (csv_lines csv)) [] = Inr recs"
    by (auto simp: parseCSV_def Let_def split: if_splits option.splits)
  from rows_loop_length[OF this] len show ?thesis by simp
qed

text \<open>
  When the header has a column named \<open>type\<close> and the column counts agree, the row's
  object has that property: the TypeError of the model is never thrown, and the
  message of every row error contains the row number.
\<close>

lemma fold_upd_dom:
  "dom (fold (\<lambda>(h, v) r. r(h \<mapsto> v)) ps m) = dom m \<union> fst ` set ps"
  by (induction ps arbitrary: m) auto

lemma row_object_defined:
  "h \<in> set hs \<Longrightarrow> length vs = length hs \<Longrightarrow> \<exists>v. row_object hs vs h = Some v"
proof -
  assume h: "h \<in> set hs" and len: "length vs = length hs"
  have "dom (row_object hs vs) = fst ` set (zip hs vs)"
    by (simp add: row_object_def fold_upd_dom)
  also have "\<dots> = set (map fst (zip hs vs))" by simp
  also have "\<dots> = set hs" using len by (simp add: map_fst_zip)
  finally show ?thesis using h by auto
qed

lemma js_includes_startsWith: "startsWith s sub \<Longrightarrow> js_includes s sub"
  by (cases s) (auto elim: startsWith.elims)

lemma startsWith_append: "startsWith (b @ c) b"
  by (induction b) auto

lemma js_includes_prepend: "js_includes s sub \<Longrightarrow> js_includes (a @ s) sub"
  by (induction a) auto

lemma js_includes_middle: "js_includes (a @ b @ c) b"
  by (intro js_includes_prepend js_includes_startsWith startsWith_append)

lemma parse_row_error_message:
  assumes "parse_row pf nd hs i l = Inl e" and "''type'' \<in> set hs"
  shows "js_includes (error_message e) (toString (i + 1))"
proof -
  have "e \<noteq> TypeError (i + 1)"
    using assms row_object_defined[of "''type''" hs "map trim (js_split CHR '','' l)"]
    by (auto simp: parse_row_def Let_def split: option.splits if_splits)
  moreover have "error_row e = Some (i + 1)" using assms(1) by (rule parse_row_error_row)
  ultimately show ?thesis
    by (cases e)
      (auto simp only: error_message.simps error_row.simps option.inject option.distinct
        intro: js_includes_middle)
qed

subsection \<open>The example files, decoded\<close>

lemmas csv_eval =
  parseCSV_def csv_lines_def csv_headers_def requiredHeaders_def parse_row_def row_object_def
  row_valid_def cell_def trim_def toLowerCase_def lowerChar_def isWhiteSpace_def
  newDate_iso_def parseFloat_dec_def isDigit_def digits_val_def exponent_factor_def

lemma statement_lines:
  "csv_lines statement_csv =
     [''date,description,amount,type'', ''2024-01-05,Swiggy,-250.5,debit'',
      ''2024-01-06,Refund,-40,credit'']"
  by (simp add: statement_csv_def csv_lines_def trim_def isWhiteSpace_def)

lemma credits_lines:
  "csv_lines credits_csv = [''date,description,amount,type'', ''2024-01-06,Salary,1000,credit'']"
  by (simp add: credits_csv_def csv_lines_def trim_def isWhiteSpace_def)

lemma broken_lines:
  "csv_lines broken_csv = [''date,description,amount,type'', ''2024-01-05,Swiggy,abc,debit'']"
  by (simp add: broken_csv_def csv_lines_def trim_def isWhiteSpace_def)

lemma example_headers:
  "csv_headers (''date,description,amount,type'' # rows) = requiredHeaders"
  by (simp add: csv_headers_def requiredHeaders_def trim_def isWhiteSpace_def toLowerCase_def
      lowerChar_def)

lemma debit_row_valid:
  "row_valid parseFloat_dec newDate_iso requiredHeaders ''2024-01-05,Swiggy,-250.5,debit''"
  by (simp add: csv_eval)

lemma credit_row_valid:
  "row_valid parseFloat_dec newDate_iso requiredHeaders ''2024-01-06,Refund,-40,credit''"
  by (simp add: csv_eval)

lemma debit_row_amount:
  "cell requiredHeaders ''2024-01-05,Swiggy,-250.5,debit'' ''amount'' = Some ''-250.5''"
  by (simp add: csv_eval)

lemma parseFloat_dec_example: "parseFloat_dec ''-250.5'' = Some (- 250.5)"
  by (simp add: csv_eval)

lemma broken_row_invalid:
  "\<not> row_valid parseFloat_dec newDate_iso requiredHeaders ''2024-01-05,Swiggy,abc,debit''"
  by (simp add: csv_eval)

lemma prefix_decoded:
  "parseCSV parseFloat_dec newDate_iso prefix_csv
     = Inr [\<lparr> r_date = ''2024-01-05'', r_description = ''Swiggy'', r_amount = 12,
              r_type = ''debit'' \<rparr>]"
  by (simp add: prefix_csv_def csv_eval)

lemma windows_lines:
  "csv_lines windows_csv
     = [''Date, Description ,AMOUNT,Type'' @ [CHR 0x0D], ''2024-01-06,Refund,-40,credit'' @ [CHR 0x0D],
        ''2024-01-05,Swiggy,-250.5,DEBIT'' @ [CHR 0x0D]]"
  by (simp add: windows_csv_def CRLF_def csv_lines_def trim_def isWhiteSpace_def)

lemma statement_debit_row:
  "cell requiredHeaders ''2024-01-05,Swiggy,-250.5,debit'' ''date'' = Some ''2024-01-05''
   \<and> cell requiredHeaders ''2024-01-05,Swiggy,-250.5,debit'' ''description'' = Some ''Swiggy''
   \<and> cell requiredHeaders ''2024-01-05,Swiggy,-250.5,debit'' ''type'' = Some ''debit''
   \<and> cell requiredHeaders ''2024-01-06,Refund,-40,credit'' ''type'' = Some ''credit''"
  by (simp add: csv_eval)

lemma lower_types:
  "toLowerCase ''debit'' = ''debit'' \<and> toLowerCase ''DEBIT'' = ''debit''
   \<and> toLowerCase ''credit'' = ''credit''"
  by (simp add: toLowerCase_def lowerChar_def)

lemma swiggy_inferred: "inferCategory ''Swiggy'' = food"
  by (simp add: inferCategory_def categoryKeywords_def toLowerCase_def lowerChar_def)

lemma swiggy_date: "newDate_iso ''2024-01-05'' = Valid_Date 2024 0 4"
  by (simp add: newDate_iso_def isDigit_def digits_val_def)

lemma credits_decoded:
  "parseCSV parseFloat_dec newDate_iso credits_csv
     = Inr [\<lparr> r_date = ''2024-01-06'', r_description = ''Salary'', r_amount = 1000,
              r_type = ''credit'' \<rparr>]"
  by (simp add: parseCSV_def credits_lines example_headers)
    (simp add: csv_eval)

lemma bank_csv_name: "endsWith (toLowerCase ''bank.csv'') ''.csv''"
  by (simp add: endsWith_def toLowerCase_def lowerChar_def)

section \<open>The claims about the decoder\<close>

text \<open>
  Claim C10. A data row whose amount cell parses to a negative number is not rejected:
  when the header names the required columns and every data row passes the
  decoder's validation (which does not look at the sign), decoding succeeds with one
  record per data row, and the record of a row whose amount parses to \<open>x < 0\<close> has the
  amount \<open>- x\<close>, its absolute value.
\<close>

theorem parseCSV_negative_amount:
  assumes hdr: "\<forall>required \<in> set requiredHeaders. required \<in> set (csv_headers (csv_lines csv))"
    and rows: "\<forall>l \<in> set (tl (csv_lines csv)).
                 row_valid parseFloat newDate (csv_headers (csv_lines csv)) l"
    and j: "j < length (tl (csv_lines csv))"
    and a: "cell (csv_headers (csv_lines csv)) (tl (csv_lines csv) ! j) ''amount'' = Some a"
    and x: "parseFloat a = Some x" "x < 0"
  shows "\<exists>records. parseCSV parseFloat newDate csv = Inr records
           \<and> length records = length (tl (csv_lines csv))
           \<and> r_amount (records ! j) = - x"
proof -
  let ?lines = "csv_lines csv"
  let ?hs = "csv_headers ?lines"
  from j have len: "\<not> length ?lines < 2" by simp
  from rows_loop_valid[OF rows, of 1 "[]"] obtain recs where
    recs: "rows_loop parseFloat newDate ?hs 1 (tl ?lines) [] = Inr recs"
      "length recs = length (tl ?lines)"
      "\<forall>k < length (tl ?lines).
         parse_row parseFloat newDate ?hs (1 + k) (tl ?lines ! k) = Inr (recs ! k)"
    by auto
  from recs(3) j have "parse_row parseFloat newDate ?hs (1 + j) (tl ?lines ! j) = Inr (recs ! j)"
    by blast
  from parse_row_amount[OF this a x(1)] x(2) have "r_amount (recs ! j) = - x" by simp
  moreover have "parseCSV parseFloat newDate csv = Inr recs"
    using len recs(1) find_required_None[OF hdr] by (simp add: parseCSV_def Let_def)
  ultimately show ?thesis using recs(2) by blast
qed

text \<open>
  Witness for C10: in the example statement the first data row has the amount cell
  \<open>-250.5\<close>; the file decodes to two records and the first has the amount 250.5.
\<close>

theorem parseCSV_negative_amount_witness:
  "\<exists>records. parseCSV parseFloat_dec newDate_iso statement_csv = Inr records
     \<and> length records = 2 \<and> r_amount (records ! 0) = 250.5"
proof -
  have "\<exists>records. parseCSV parseFloat_dec newDate_iso statement_csv = Inr records
          \<and> length records = length (tl (csv_lines statement_csv))
          \<and> r_amount (records ! 0) = - (- 250.5)"
    by (rule parseCSV_negative_amount [where a = "''-250.5''"])
      (simp_all add: statement_lines example_headers debit_row_valid credit_row_valid
        debit_row_amount parseFloat_dec_example)
  then show ?thesis by (auto simp: statement_lines)
qed

text \<open>
  Claim C6, as stated, fails: the decoder numbers the rows after it has dropped the
  blank lines. In the first example file the row with the amount cell \<open>abc\<close> is the
  third line of the file (index 2 of the split at newlines), and the error names
  row 2. The decoder also stops at the first error: in the second file the row on
  the third line has the non-numeric amount \<open>xyz\<close>, and the error names row 2 only;
  in the third file the header lacks a column, and the error names no row. And the
  decoder's test for a number is \<open>parseFloat\<close> followed by \<open>isNaN\<close>, which reads a
  leading number and ignores what follows it: in the fourth file the amount cell
  \<open>12abc\<close> is not a number, and the row is decoded with the amount 12.
\<close>

theorem parseCSV_row_number_counterexample:
  "js_split CHR ''\<newline>'' broken_csv ! 2 = ''2024-01-05,Swiggy,abc,debit''
   \<and> parseCSV parseFloat_dec newDate_iso broken_csv = Inl (InvalidAmount 2 ''abc'')
   \<and> error_message (InvalidAmount 2 ''abc'') = ''Invalid amount in row 2: abc''
   \<and> js_split CHR ''\<newline>'' two_bad_csv ! 2 = ''2024-01-06,Uber,xyz,debit''
   \<and> parseCSV parseFloat_dec newDate_iso two_bad_csv = Inl (InvalidAmount 2 ''abc'')
   \<and> parseCSV parseFloat_dec newDate_iso headless_csv = Inl (MissingColumn ''type'')
   \<and> error_message (MissingColumn ''type'') = ''CSV must contain column: type''
   \<and> parseCSV parseFloat_dec newDate_iso prefix_csv
       = Inr [\<lparr> r_date = ''2024-01-05'', r_description = ''Swiggy'', r_amount = 12,
                r_type = ''debit'' \<rparr>]"
  by (simp add: broken_csv_def two_bad_csv_def headless_csv_def prefix_csv_def csv_eval
      toString.simps)

text \<open>
  Claim C6, amended. When the header names the required columns and the data row at
  position \<open>j\<close> (counted from 0 among the non-blank lines after the header) is the first
  with a wrong column count, an unparseable date, an amount cell in which no leading
  number can be read, or a type other than debit and credit, the decoder throws an
  error for the row number \<open>j + 2\<close>, the 1-based position of that row among the
  non-blank lines, and the message contains that number. No records are returned, so
  the upload ends without success and leaves the store as it was. An amount cell
  that starts with a number and goes on with other text is left out: the statement
  says nothing about such a row.
\<close>

theorem parseCSV_first_invalid_row:
  assumes hdr: "\<forall>required \<in> set requiredHeaders. required \<in> set (csv_headers (csv_lines csv))"
    and j: "j < length (tl (csv_lines csv))"
    and bad: "\<not> row_valid parseFloat newDate (csv_headers (csv_lines csv)) (tl (csv_lines csv) ! j)"
    and before: "\<forall>l \<in> set (take j (tl (csv_lines csv))).
                   row_valid parseFloat newDate (csv_headers (csv_lines csv)) l"
  shows "\<exists>e. parseCSV parseFloat newDate csv = Inl e \<and> error_row e = Some (j + 2)
           \<and> js_includes (error_message e) (toString (j + 2))
           \<and> outcome (handleFileSelect classifier parseFloat newDate fileName csv existing st)
               \<noteq> UploadSuccess es
           \<and> store_after (handleFileSelect classifier parseFloat newDate fileName csv existing st)
               = st"
proof -
  let ?lines = "csv_lines csv"
  let ?hs = "csv_headers ?lines"
  let ?rows = "tl ?lines"
  from j have len: "\<not> length ?lines < 2" by simp
  from j have split: "?rows = take j ?rows @ (?rows ! j) # drop (Suc j) ?rows"
    by (simp add: id_take_nth_drop)
  from rows_loop_first_invalid[OF before bad, of 1 "drop (Suc j) ?rows" "[]"] split j
  obtain e where e: "rows_loop parseFloat newDate ?hs 1 ?rows [] = Inl e"
      "parse_row parseFloat newDate ?hs (1 + j) (?rows ! j) = Inl e"
    by auto
  have p: "parseCSV parseFloat newDate csv = Inl e"
    using len e(1) find_required_None[OF hdr] by (simp add: parseCSV_def Let_def)
  have row: "error_row e = Some (j + 2)"
    using parse_row_error_row[OF e(2)] by simp
  from hdr have "''type'' \<in> set ?hs" by (simp add: requiredHeaders_def)
  from parse_row_error_message[OF e(2) this]
  have msg: "js_includes (error_message e) (toString (j + 2))" by (simp add: add.commute)
  from p row msg show ?thesis
    by (auto simp: handleFileSelect_def)
qed

text \<open>
  Witness for the amended C6: in the example file the first data row among the
  non-blank lines is invalid, and the error names row 2.
\<close>

theorem parseCSV_first_invalid_row_witness:
  "\<exists>e. parseCSV parseFloat_dec newDate_iso broken_csv = Inl e \<and> error_row e = Some 2
     \<and> outcome (handleFileSelect (classify today) parseFloat_dec newDate_iso ''bank.csv''
                  broken_csv [] example_store) \<noteq> UploadSuccess []
     \<and> store_after (handleFileSelect (classify today) parseFloat_dec newDate_iso ''bank.csv''
                  broken_csv [] example_store) = example_store"
proof -
  have "\<exists>e. parseCSV parseFloat_dec newDate_iso broken_csv = Inl e \<and> error_row e = Some (0 + 2)
     \<and> js_includes (error_message e) (toString (0 + 2))
     \<and> outcome (handleFileSelect (classify today) parseFloat_dec newDate_iso ''bank.csv''
                  broken_csv [] example_store) \<noteq> UploadSuccess []
     \<and> store_after (handleFileSelect (classify today) parseFloat_dec newDate_iso ''bank.csv''
                  broken_csv [] example_store) = example_store"
    by (rule parseCSV_first_invalid_row)
      (simp_all add: broken_lines example_headers broken_row_invalid)
  then show ?thesis by auto
qed

section \<open>The claims about the upload\<close>

text \<open>The page puts the expenses of a successful upload in front of those it has.\<close>

lemma handleCSVUploadSuccess_expenses:
  "expenses (handleCSVUploadSuccess sv newExpenses p) = newExpenses @ expenses p"
  by (simp add: handleCSVUploadSuccess_def Let_def split: prod.splits)

text \<open>
  \<open>bankRecordToExpense\<close> chooses the category that the keyword table of the
  specification gives, and copies the other fields from the record.
\<close>

lemma bankRecordToExpense_category:
  "category (bankRecordToExpense newDate r) = inferCategory (r_description r)"
  by (simp add: bankRecordToExpense_def inferCategory_def categoryKeywords_def Let_def)

lemma bankRecordToExpense_fields:
  "bankRecordToExpense newDate r
     = \<lparr> eid = None, description = r_description r, amount = r_amount r,
         category = inferCategory (r_description r), date = newDate (r_date r),
         isImpulse = False, source = AUTO \<rparr>"
  using bankRecordToExpense_category[of newDate r]
  by (simp add: bankRecordToExpense_def Let_def)

text \<open>
  Claim C9. A CSV file that decodes successfully but whose rows are all of type
  credit is an error of the import: the upload ends in the error state with the
  message \<open>No debit transactions found in CSV\<close>, nothing is handed to the classifier,
  and the store is left as it was, so no transaction is created.
\<close>

theorem all_credit_import_fails:
  assumes name: "endsWith (toLowerCase fileName) ''.csv''"
    and dec: "parseCSV parseFloat newDate csv = Inr records"
    and credit: "\<forall>r \<in> set records. r_type r = ''credit''"
  shows "handleFileSelect classifier parseFloat newDate fileName csv existing st
           = \<lparr> outcome = UploadError ''No debit transactions found in CSV'',
               store_after = st, classified = [] \<rparr>"
proof -
  from parseCSV_Inr_length[OF dec] have ne: "length records \<noteq> 0"
    by (cases "csv_lines csv") auto
  from credit have "filter (\<lambda>r. r_type r = ''debit'') records = []"
    by (auto simp: filter_empty_conv)
  with name dec ne show ?thesis
    by (simp add: handleFileSelect_def)
qed

text \<open>Witness for C9: the example file with a single credit row.\<close>

theorem all_credit_import_fails_witness:
  "handleFileSelect (classify today) parseFloat_dec newDate_iso ''bank.csv'' credits_csv []
       example_store
     = \<lparr> outcome = UploadError ''No debit transactions found in CSV'',
         store_after = example_store, classified = [] \<rparr>"
  by (rule all_credit_import_fails [OF bank_csv_name credits_decoded]) simp

text \<open>
  Claim C7. For a CSV file whose header names the columns date, description, amount
  and type (the header \<open>date,description,amount,type\<close>, also in other letter cases,
  with padded cells or with lines ending in a carriage return) and whose two data
  rows are one valid debit row and one valid credit row in either order, selected
  under a name ending in \<open>.csv\<close> while a user is signed in: the upload succeeds with
  exactly one expense. Its description is the description cell of the debit row, its
  amount the absolute value of the number in that row's amount cell, its date the
  date parsed from that row's date cell, its category the one the keyword table
  gives for the description, its impulse flag the classifier's, its id the one the
  store assigned, and its source AUTO. The classifier was called once, on that
  expense before it had flag and id, and never on the credit row; and the store has
  gained exactly that one document.
\<close>

theorem import_one_debit_one_credit:
  assumes name: "endsWith (toLowerCase fileName) ''.csv''"
    and lines: "csv_lines csv = [h, la, lb]"
    and hs: "hs = csv_headers (csv_lines csv)"
    and hdr: "\<forall>required \<in> set requiredHeaders. required \<in> set hs"
    and order: "(la = ld \<and> lb = lc) \<or> (la = lc \<and> lb = ld)"
    and ld: "row_valid parseFloat newDate hs ld"
      "cell hs ld ''date'' = Some d" "cell hs ld ''description'' = Some desc"
      "cell hs ld ''amount'' = Some a" "parseFloat a = Some x"
      "cell hs ld ''type'' = Some t" "toLowerCase t = ''debit''"
    and lc: "row_valid parseFloat newDate hs lc"
      "cell hs lc ''type'' = Some t'" "toLowerCase t' = ''credit''"
    and auth: "currentUser st = Some uid"
    and run: "run = handleFileSelect classifier parseFloat newDate fileName csv existing st"
    and base: "base = \<lparr> eid = None, description = desc, amount = \<bar>x\<bar>,
                       category = inferCategory desc, date = newDate d,
                       isImpulse = False, source = AUTO \<rparr>"
  shows "outcome run
           = UploadSuccess [base\<lparr> isImpulse := impulse (classifier base existing),
                                 eid := Some (autoId st (nextAuto st)) \<rparr>]
         \<and> classified run = [base]
         \<and> docs (store_after run)
             = docs st @ [(autoId st (nextAuto st), uid,
                           base\<lparr> isImpulse := impulse (classifier base existing) \<rparr>)]"
proof -
  let ?rd = "\<lparr> r_date = d, r_description = desc, r_amount = \<bar>x\<bar>, r_type = ''debit'' \<rparr>"
  have pd: "parse_row parseFloat newDate hs i ld = Inr ?rd" for i
    using parse_row_debit[OF ld(1-6)] ld(7) by simp
  from parse_row_type[OF lc(1,2), of 0] lc(3) obtain rc where
    rc0: "parse_row parseFloat newDate hs 0 lc = Inr rc" and rc: "r_type rc = ''credit''"
    by auto
  have pc: "parse_row parseFloat newDate hs i lc = Inr rc" for i
    using rc0 by (rule parse_row_any_index)
  have ne: "ld \<noteq> lc" using ld(6,7) lc(2,3) by auto
  have req: "find (\<lambda>required. required \<notin> set hs) requiredHeaders = None"
    using hdr by (rule find_required_None)
  have hs': "csv_headers [h, la, lb] = hs" using hs lines by simp
  have dec: "parseCSV parseFloat newDate csv = Inr (if la = ld \<and> lb = lc then [?rd, rc] else [rc, ?rd])"
    using order ne by (auto simp: parseCSV_def lines hs' req pd pc)
  have b: "bankRecordToExpense newDate ?rd = base"
    by (simp add: bankRecordToExpense_fields base)
  show ?thesis
    by (simp add: run handleFileSelect_def name dec rc b with_ids_def addExpenses_def auth Let_def)
qed

text \<open>
  Witness for C7: the example statement, imported into the empty store, yields the one
  expense of its debit row, and only that expense reached the classifier; the same
  statement with carriage returns, a header in other letter cases with padded cells
  and the credit row first yields the same expense.
\<close>

theorem import_one_debit_one_credit_witness:
  "outcome (handleFileSelect (classify today) parseFloat_dec newDate_iso ''bank.csv''
      statement_csv [] example_store)
     = UploadSuccess
         [\<lparr> eid = Some ''doc0'', description = ''Swiggy'', amount = 250.5, category = food,
            date = Valid_Date 2024 0 4, isImpulse = False, source = AUTO \<rparr>]
   \<and> classified (handleFileSelect (classify today) parseFloat_dec newDate_iso ''bank.csv''
        statement_csv [] example_store)
     = [\<lparr> eid = None, description = ''Swiggy'', amount = 250.5, category = food,
          date = Valid_Date 2024 0 4, isImpulse = False, source = AUTO \<rparr>]
   \<and> outcome (handleFileSelect (classify today) parseFloat_dec newDate_iso ''bank.csv''
      windows_csv [] example_store)
     = UploadSuccess
         [\<lparr> eid = Some ''doc0'', description = ''Swiggy'', amount = 250.5, category = food,
            date = Valid_Date 2024 0 4, isImpulse = False, source = AUTO \<rparr>]"
proof -
  let ?base = "\<lparr> eid = None, description = ''Swiggy'', amount = \<bar>- 250.5\<bar>,
                 category = inferCategory ''Swiggy'', date = newDate_iso ''2024-01-05'',
                 isImpulse = False, source = AUTO \<rparr>"
  let ?run = "\<lambda>csv. handleFileSelect (classify today) parseFloat_dec newDate_iso ''bank.csv''
                 csv [] example_store"
  have user: "currentUser example_store = Some ''u1''" by (simp add: example_store_def)
  have hdr: "\<forall>required \<in> set requiredHeaders. required \<in> set requiredHeaders" by simp
  have one: "outcome (?run statement_csv)
           = UploadSuccess [?base\<lparr> isImpulse := impulse (classify today ?base []),
                 eid := Some (autoId example_store (nextAuto example_store)) \<rparr>]
         \<and> classified (?run statement_csv) = [?base]
         \<and> docs (store_after (?run statement_csv))
             = docs example_store @ [(autoId example_store (nextAuto example_store), ''u1'',
                           ?base\<lparr> isImpulse := impulse (classify today ?base []) \<rparr>)]"
    by (rule import_one_debit_one_credit [where
          hs = requiredHeaders and h = "''date,description,amount,type''"
          and la = "''2024-01-05,Swiggy,-250.5,debit''" and lb = "''2024-01-06,Refund,-40,credit''"
          and ld = "''2024-01-05,Swiggy,-250.5,debit''" and lc = "''2024-01-06,Refund,-40,credit''"
          and d = "''2024-01-05''" and desc = "''Swiggy''" and a = "''-250.5''" and x = "- 250.5"
          and t = "''debit''" and t' = "''credit''" and uid = "''u1''"])
      (simp_all add: bank_csv_name statement_lines example_headers debit_row_valid
        credit_row_valid debit_row_amount parseFloat_dec_example statement_debit_row lower_types
        user)
  have two: "outcome (?run windows_csv)
           = UploadSuccess [?base\<lparr> isImpulse := impulse (classify today ?base []),
                 eid := Some (autoId example_store (nextAuto example_store)) \<rparr>]
         \<and> classified (?run windows_csv) = [?base]
         \<and> docs (store_after (?run windows_csv))
             = docs example_store @ [(autoId example_store (nextAuto example_store), ''u1'',
                           ?base\<lparr> isImpulse := impulse (classify today ?base []) \<rparr>)]"
    by (rule import_one_debit_one_credit [where
          hs = requiredHeaders and h = "''Date, Description ,AMOUNT,Type'' @ [CHR 0x0D]"
          and la = "''2024-01-06,Refund,-40,credit'' @ [CHR 0x0D]"
          and lb = "''2024-01-05,Swiggy,-250.5,DEBIT'' @ [CHR 0x0D]"
          and ld = "''2024-01-05,Swiggy,-250.5,DEBIT'' @ [CHR 0x0D]"
          and lc = "''2024-01-06,Refund,-40,credit'' @ [CHR 0x0D]"
          and d = "''2024-01-05''" and desc = "''Swiggy''" and a = "''-250.5''" and x = "- 250.5"
          and t = "''DEBIT''" and t' = "''credit''" and uid = "''u1''"])
      (simp_all add: bank_csv_name windows_lines user, simp_all add: csv_eval)
  have i: "autoId example_store (nextAuto example_store) = ''doc0''"
    by (simp add: example_store_def toString.simps)
  from one two show ?thesis
    by (simp add: i swiggy_inferred swiggy_date classify_def nonEssential_def
        IMPULSE_THRESHOLD_def)
qed

section \<open>The claims about the dashboard page\<close>

lemma find_Some_source:
  "find P es = Some target \<Longrightarrow> target \<in> set es \<and> P target"
  by (induction es) (auto split: if_splits)

lemma unique_ids_same:
  assumes "distinct (List.map_filter eid es)" "e \<in> set es" "e' \<in> set es"
    "eid e = Some i" "eid e' = Some i"
  shows "e = e'"
  using assms
proof (induction es)
  case Nil
  then show ?case by simp
next
  case (Cons a es)
  have mem: "x \<in> set es \<Longrightarrow> eid x = Some i \<Longrightarrow> i \<in> set (List.map_filter eid es)" for x
    by (force simp: List.map_filter_def)
  from Cons show ?case
    by (auto simp: List.map_filter_simps split: option.splits dest: mem)
qed

lemma delete_keeps_AUTO_aux:
  assumes ids: "distinct (List.map_filter eid (expenses p))"
  shows "filter (\<lambda>e. source e = AUTO) (expenses (handleDeleteExpense sv i p))
           = filter (\<lambda>e. source e = AUTO) (expenses p)"
proof (cases "find (\<lambda>e. eid e = Some i) (expenses p)")
  case None
  then show ?thesis by (simp add: handleDeleteExpense_def)
next
  case (Some target)
  from find_Some_source[OF Some] have t: "target \<in> set (expenses p)" "eid target = Some i"
    by auto
  show ?thesis
  proof (cases "source target = MANUAL")
    case False
    with Some show ?thesis by (simp add: handleDeleteExpense_def)
  next
    case True
    have "source e = AUTO \<Longrightarrow> e \<in> set (expenses p) \<Longrightarrow> eid e \<noteq> Some i" for e
      using unique_ids_same[OF ids _ t(1) _ t(2), of e] True by auto
    then have keep: "filter (\<lambda>e. source e = AUTO) (filter (\<lambda>e. eid e \<noteq> Some i) (expenses p))
                 = filter (\<lambda>e. source e = AUTO) (expenses p)"
      by (auto intro: filter_cong)
    show ?thesis using Some True t keep
      by (auto simp: handleDeleteExpense_def Let_def split: sum.splits prod.splits)
  qed
qed

lemma handleDeleteExpense_changes:
  assumes "handleDeleteExpense sv i p \<noteq> p"
  shows "\<exists>target. find (\<lambda>e. eid e = Some i) (expenses p) = Some target \<and> source target = MANUAL"
  using assms
  by (auto simp: handleDeleteExpense_def Let_def split: option.splits if_splits sum.splits prod.splits)

lemma example_page_ids: "distinct (List.map_filter eid (expenses example_page))"
  by (simp add: example_page_def dinner_def swiggy_def List.map_filter_simps)

lemma handleDeleteExpense_other_docs:
  "filter (\<lambda>(j, u, d). j \<noteq> i) (docs (store (handleDeleteExpense sv i p)))
     = filter (\<lambda>(j, u, d). j \<noteq> i) (docs (store p))"
  by (auto simp: handleDeleteExpense_def deleteExpense_def Let_def
      split: option.splits sum.splits prod.splits intro: filter_cong)

lemma distinct_fst_same:
  "distinct (map fst xs) \<Longrightarrow> (i, a) \<in> set xs \<Longrightarrow> (i, b) \<in> set xs \<Longrightarrow> a = b"
  by (induction xs) (auto simp: rev_image_eqI)

lemma handleDeleteExpense_AUTO_docs:
  assumes uniq: "distinct (map fst (docs (store p)))" and cons: "page_in_store p"
  shows "filter (\<lambda>(j, u, d). source d = AUTO) (docs (store (handleDeleteExpense sv i p)))
           = filter (\<lambda>(j, u, d). source d = AUTO) (docs (store p))"
proof (cases "find (\<lambda>e. eid e = Some i) (expenses p)")
  case None
  then show ?thesis by (simp add: handleDeleteExpense_def)
next
  case (Some target)
  from find_Some_source[OF Some] have t: "target \<in> set (expenses p)" "eid target = Some i"
    by auto
  show ?thesis
  proof (cases "source target = MANUAL")
    case False
    with Some show ?thesis by (simp add: handleDeleteExpense_def)
  next
    case True
    from cons t obtain u d where d: "(i, u, d) \<in> set (docs (store p))" "source d = MANUAL"
      using True by (fastforce simp: page_in_store_def list_all_iff list_ex_iff)
    have "source d' = AUTO \<Longrightarrow> (j, u', d') \<in> set (docs (store p)) \<Longrightarrow> j \<noteq> i" for j u' d'
      using distinct_fst_same[OF uniq d(1), of "(u', d')"] d(2) by auto
    then have keep: "filter (\<lambda>(j, u, d). source d = AUTO)
                       (filter (\<lambda>(j, u, d). j \<noteq> i) (docs (store p)))
                 = filter (\<lambda>(j, u, d). source d = AUTO) (docs (store p))"
      by (auto intro: filter_cong)
    show ?thesis using Some True keep
      by (auto simp: handleDeleteExpense_def deleteExpense_def Let_def
          split: option.splits sum.splits prod.splits)
  qed
qed

lemma example_page_in_store:
  "distinct (map fst (docs (store example_page))) \<and> page_in_store example_page"
  by (simp add: page_in_store_def example_page_def example_store_def dinner_def swiggy_def)

text \<open>
  Claim C8. A delete request changes the page (its expenses, its store or anything
  else) only when the expense it targets, the first with that id, has the source
  MANUAL, and no delete request, from the handler or from a click on a row of the
  list, removes an expense whose source is AUTO: the AUTO expenses of the page are
  the same before and after. Transaction ids are unique in the page, as the store
  assigns them. In the store a delete request touches no document of another id,
  and when the documents have distinct ids and the page reflects the store, the
  AUTO documents of the store are the same before and after.
\<close>

theorem delete_keeps_AUTO:
  assumes ids: "distinct (List.map_filter eid (expenses p))"
  shows "filter (\<lambda>e. source e = AUTO) (expenses (handleDeleteExpense sv i p))
           = filter (\<lambda>e. source e = AUTO) (expenses p)
         \<and> filter (\<lambda>e. source e = AUTO) (expenses (ExpenseList_onClick sv clicked ok p))
           = filter (\<lambda>e. source e = AUTO) (expenses p)
         \<and> (handleDeleteExpense sv i p \<noteq> p \<longrightarrow>
              (\<exists>target. find (\<lambda>e. eid e = Some i) (expenses p) = Some target
                  \<and> source target = MANUAL))
         \<and> filter (\<lambda>(j, u, d). j \<noteq> i) (docs (store (handleDeleteExpense sv i p)))
           = filter (\<lambda>(j, u, d). j \<noteq> i) (docs (store p))
         \<and> (distinct (map fst (docs (store p))) \<and> page_in_store p \<longrightarrow>
              filter (\<lambda>(j, u, d). source d = AUTO) (docs (store (handleDeleteExpense sv i p)))
                = filter (\<lambda>(j, u, d). source d = AUTO) (docs (store p))
              \<and> filter (\<lambda>(j, u, d). source d = AUTO)
                    (docs (store (ExpenseList_onClick sv clicked ok p)))
                = filter (\<lambda>(j, u, d). source d = AUTO) (docs (store p)))"
  using delete_keeps_AUTO_aux[OF ids] handleDeleteExpense_changes
    handleDeleteExpense_other_docs handleDeleteExpense_AUTO_docs
  by (auto simp: ExpenseList_onClick_def split: option.splits)

text \<open>
  Witness for C8: on the example page, deleting the manual expense leaves the
  imported one in the page and in the store, and a delete request for the imported
  one changes nothing.
\<close>

theorem delete_keeps_AUTO_witness:
  "expenses (handleDeleteExpense example_services ''m1'' example_page) = [swiggy]
   \<and> expenses (handleDeleteExpense example_services ''a1'' example_page) = [dinner, swiggy]
   \<and> filter (\<lambda>e. source e = AUTO) (expenses (handleDeleteExpense example_services ''m1'' example_page))
       = [swiggy]
   \<and> filter (\<lambda>(j, u, d). source d = AUTO)
        (docs (store (handleDeleteExpense example_services ''m1'' example_page)))
       = [(''a1'', ''u1'', swiggy)]
   \<and> docs (store (handleDeleteExpense example_services ''m1'' example_page))
       = [(''a1'', ''u1'', swiggy)]"
proof -
  note inst = delete_keeps_AUTO [OF example_page_ids, of example_services "''m1''"]
  have "filter (\<lambda>e. source e = AUTO) (expenses (handleDeleteExpense example_services ''m1'' example_page))
          = filter (\<lambda>e. source e = AUTO) (expenses example_page)"
    using inst by blast
  moreover have "filter (\<lambda>(j, u, d). source d = AUTO)
        (docs (store (handleDeleteExpense example_services ''m1'' example_page)))
      = filter (\<lambda>(j, u, d). source d = AUTO) (docs (store example_page))"
    using inst example_page_in_store by blast
  moreover have "expenses (handleDeleteExpense example_services ''m1'' example_page) = [swiggy]
      \<and> docs (store (handleDeleteExpense example_services ''m1'' example_page))
          = [(''a1'', ''u1'', swiggy)]"
    by (simp add: handleDeleteExpense_def example_page_def example_services_def dinner_def
        swiggy_def deleteExpense_def example_store_def reconcile_def Let_def)
  moreover have "expenses (handleDeleteExpense example_services ''a1'' example_page) = [dinner, swiggy]"
    by (simp add: handleDeleteExpense_def example_page_def example_services_def dinner_def
        swiggy_def)
  ultimately show ?thesis
    by (simp add: example_page_def example_store_def swiggy_def dinner_def)
qed

text \<open>
  What \<open>handleAddExpense\<close> does under a cap. With \<open>remaining\<close> at most 0 the page
  gains a toast and nothing else. With \<open>remaining\<close> above 0 the expense is committed
  with the smaller of its amount and \<open>remaining\<close>; the part cut off goes into a toast
  only, and the committed page does not depend on the amount requested.
\<close>

lemma handleAddExpense_blocked:
  assumes "applySavings p"
    and "computeCategoryCap sv (expenses p) (filter (\<lambda>a. severity a = bad) (alerts p))
           (n_category newExpense) now = Some cap"
    and "max 0 (cap - monthTotal (expenses p) (n_category newExpense) now) \<le> 0"
  shows "handleAddExpense sv newExpense now p
           = p\<lparr> toasts := toasts p
                   @ [Spending_capped (n_category newExpense) (n_amount newExpense)] \<rparr>"
  using assms by (simp add: handleAddExpense_def Let_def)

lemma commitExpense_persists:
  assumes "currentUser (store p) = Some uid"
  shows "\<exists>e. docs (store (commitExpense sv newExpense finalAmount now p))
               = docs (store p) @ [(autoId (store p) (nextAuto (store p)), uid, e)]
           \<and> amount e = finalAmount \<and> source e = MANUAL \<and> category e = n_category newExpense
           \<and> expenses (commitExpense sv newExpense finalAmount now p)
               = e\<lparr> eid := Some (autoId (store p) (nextAuto (store p))) \<rparr> # expenses p"
  using assms
  by (simp add: commitExpense_def addExpense_def Let_def split: prod.splits)

lemma handleAddExpense_capped_amount:
  assumes "applySavings p"
    and "computeCategoryCap sv (expenses p) (filter (\<lambda>a. severity a = bad) (alerts p))
           (n_category newExpense) now = Some cap"
    and "remaining = max 0 (cap - monthTotal (expenses p) (n_category newExpense) now)"
    and "0 < remaining"
  shows "handleAddExpense sv newExpense now p
           = (if n_amount newExpense > remaining
              then commitExpense sv newExpense remaining now
                     (p\<lparr> toasts := toasts p
                           @ [Spending_optimized (n_amount newExpense - remaining)] \<rparr>)
              else commitExpense sv newExpense (n_amount newExpense) now p)"
  using assms by (simp add: handleAddExpense_def Let_def)

lemma commitExpense_forgets_request:
  "commitExpense sv (newExpense\<lparr> n_amount := a \<rparr>) finalAmount now p
     = commitExpense sv (newExpense\<lparr> n_amount := b \<rparr>) finalAmount now p"
  by (simp add: commitExpense_def)

lemma commitExpense_toasts_irrelevant:
  "expenses (commitExpense sv ne fa now (p\<lparr> toasts := ts \<rparr>)) = expenses (commitExpense sv ne fa now p)
   \<and> store (commitExpense sv ne fa now (p\<lparr> toasts := ts \<rparr>)) = store (commitExpense sv ne fa now p)
   \<and> ledger (commitExpense sv ne fa now (p\<lparr> toasts := ts \<rparr>)) = ledger (commitExpense sv ne fa now p)
   \<and> savedSummary (commitExpense sv ne fa now (p\<lparr> toasts := ts \<rparr>))
       = savedSummary (commitExpense sv ne fa now p)"
  by (simp add: commitExpense_def Let_def split: sum.splits prod.splits)

lemma handleAddExpense_reduced_ignores_request:
  assumes "applySavings p"
    and "computeCategoryCap sv (expenses p) (filter (\<lambda>a. severity a = bad) (alerts p))
           (n_category ne) now = Some cap"
    and "remaining = max 0 (cap - monthTotal (expenses p) (n_category ne) now)"
    and "0 < remaining" and "remaining < a" and "remaining < b"
  shows "expenses (handleAddExpense sv (ne\<lparr> n_amount := a \<rparr>) now p)
           = expenses (handleAddExpense sv (ne\<lparr> n_amount := b \<rparr>) now p)
         \<and> store (handleAddExpense sv (ne\<lparr> n_amount := a \<rparr>) now p)
           = store (handleAddExpense sv (ne\<lparr> n_amount := b \<rparr>) now p)
         \<and> ledger (handleAddExpense sv (ne\<lparr> n_amount := a \<rparr>) now p)
           = ledger (handleAddExpense sv (ne\<lparr> n_amount := b \<rparr>) now p)
         \<and> savedSummary (handleAddExpense sv (ne\<lparr> n_amount := a \<rparr>) now p)
           = savedSummary (handleAddExpense sv (ne\<lparr> n_amount := b \<rparr>) now p)"
proof -
  have "handleAddExpense sv (ne\<lparr> n_amount := x \<rparr>) now p
          = commitExpense sv (ne\<lparr> n_amount := x \<rparr>) remaining now
              (p\<lparr> toasts := toasts p @ [Spending_optimized (x - remaining)] \<rparr>)"
    if "remaining < x" for x
    using handleAddExpense_capped_amount [where p = p and sv = sv
        and newExpense = "ne\<lparr> n_amount := x \<rparr>" and now = now and cap = cap
        and remaining = remaining]
      assms(1-4) that by simp
  with assms(5,6) show ?thesis
    using commitExpense_forgets_request [where sv = sv and newExpense = ne and a = a and b = b
        and finalAmount = remaining and now = now and p = p]
    by (simp add: commitExpense_toasts_irrelevant)
qed

text \<open>
  The cap arithmetic of the specification's example: with a cap of 500 and a food spend
  of 450 this month, a new food expense of 100 is committed with the amount 50, and
  the 50 cut off appear in the toast.
\<close>

lemma handleAddExpense_cap_math:
  "expenses (handleAddExpense example_services pizza today (example_page\<lparr> expenses := [dinner] \<rparr>))
     = [\<lparr> eid = Some ''doc0'', description = ''Pizza'', amount = 50, category = food,
          date = today, isImpulse = False, source = MANUAL \<rparr>, dinner]
   \<and> toasts (handleAddExpense example_services pizza today (example_page\<lparr> expenses := [dinner] \<rparr>))
     = [Spending_optimized 50, Expense_added ''Pizza'' 50 food]"
  by (simp add: handleAddExpense_def commitExpense_def addExpense_def monthTotal_def
      example_page_def example_services_def example_store_def food_alert_def dinner_def
      pizza_def today_def classify_def nonEssential_def IMPULSE_THRESHOLD_def reconcile_def
      toString.simps Let_def)

lemma example_monthTotal: "monthTotal (expenses example_page) food today = 500"
  by (simp add: monthTotal_def example_page_def dinner_def swiggy_def today_def)

text \<open>
  Claim C1 does not hold of the code. On the example page the cap for food is 500 and
  the food spend of the month is 500, so nothing remains and the new food expense of
  100 is blocked. The claim has the 100 recorded as a PREVENTED saving; the handler
  shows a toast and returns: the expenses, the store, the savings ledger and the
  summary shown are as before.
\<close>

theorem handleAddExpense_blocked_records_nothing:
  "handleAddExpense example_services pizza today example_page
     = example_page\<lparr> toasts := [Spending_capped food 100] \<rparr>
   \<and> ledger (handleAddExpense example_services pizza today example_page) = (\<lambda>key. [])
   \<and> savedSummary (handleAddExpense example_services pizza today example_page)
       = \<lparr> total = 0, prevented = 0, reduced = 0, optimized = 0 \<rparr>"
proof -
  have "handleAddExpense example_services pizza today example_page
     = example_page\<lparr> toasts := toasts example_page
           @ [Spending_capped (n_category pizza) (n_amount pizza)] \<rparr>"
    by (rule handleAddExpense_blocked [where cap = 500])
      (simp_all add: example_monthTotal pizza_def,
        simp_all add: example_page_def example_services_def food_alert_def)
  then show ?thesis by (simp add: example_page_def pizza_def)
qed

section \<open>The claims about the classifier and the savings ledger\<close>

text \<open>
  Claim C2. For a transaction of a non-essential category with an amount above 500 the
  classifier sets the impulse flag; for an amount of exactly 500 it does not: the
  threshold is exclusive.
\<close>

theorem classify_impulse_threshold:
  "(nonEssential (category t) \<and> amount t > 500 \<longrightarrow> impulse (classify now t history))
   \<and> (amount t = 500 \<longrightarrow> \<not> impulse (classify now t history))"
  by (simp add: classify_def IMPULSE_THRESHOLD_def)

text \<open>Witness for C2: a food expense of 501 is an impulse, one of 500 is not.\<close>

theorem classify_impulse_threshold_witness:
  "impulse (classify today (dinner\<lparr> amount := 501 \<rparr>) [])
   \<and> \<not> impulse (classify today (dinner\<lparr> amount := 500 \<rparr>) [])"
proof -
  have a: "nonEssential (category (dinner\<lparr> amount := 501 \<rparr>))
           \<and> amount (dinner\<lparr> amount := 501 \<rparr>) > 500"
    by (simp add: dinner_def nonEssential_def)
  have b: "amount (dinner\<lparr> amount := 500 \<rparr>) = 500" by simp
  from a classify_impulse_threshold [of "dinner\<lparr> amount := 501 \<rparr>" today "[]"]
  have "impulse (classify today (dinner\<lparr> amount := 501 \<rparr>) [])" by blast
  moreover from b classify_impulse_threshold [of "dinner\<lparr> amount := 500 \<rparr>" today "[]"]
  have "\<not> impulse (classify today (dinner\<lparr> amount := 500 \<rparr>) [])" by blast
  ultimately show ?thesis by blast
qed

text \<open>
  Claim C3. Let \<open>n\<close> be the number of times the candidate's category occurs within the
  current calendar month among the candidate and the history. The classifier sets
  the habit flag exactly when \<open>n\<close> is 4 or more: a third occurrence does not set it,
  a fourth does.
\<close>

theorem classify_habit_fourth:
  assumes "n = length (filter (\<lambda>e. category e = category t \<and> sameMonth (date e) now)
                         (t # history))"
  shows "(habit (classify now t history) \<longleftrightarrow> 4 \<le> n)
         \<and> (n = 3 \<longrightarrow> \<not> habit (classify now t history))
         \<and> (n = 4 \<longrightarrow> habit (classify now t history))"
  using assms by (simp add: classify_def HABIT_THRESHOLD_def)

text \<open>
  Witness for C3: a food expense of this month after two earlier ones is the third
  occurrence and no habit; after three earlier ones it is the fourth and a habit.
\<close>

theorem classify_habit_fourth_witness:
  "\<not> habit (classify today dinner [dinner, swiggy])
   \<and> habit (classify today dinner [dinner, swiggy, dinner])"
proof -
  have n3: "3 = length (filter (\<lambda>e. category e = category dinner \<and> sameMonth (date e) today)
                          (dinner # [dinner, swiggy]))"
    by (simp add: dinner_def swiggy_def today_def)
  have n4: "4 = length (filter (\<lambda>e. category e = category dinner \<and> sameMonth (date e) today)
                          (dinner # [dinner, swiggy, dinner]))"
    by (simp add: dinner_def swiggy_def today_def)
  from classify_habit_fourth [OF n3] have "\<not> habit (classify today dinner [dinner, swiggy])"
    by simp
  moreover from classify_habit_fourth [OF n4]
  have "habit (classify today dinner [dinner, swiggy, dinner])" by simp
  ultimately show ?thesis by blast
qed

text \<open>
  Claim C4. Calling \<open>reconcile\<close> a second time for the same user and the same
  transactions, on the ledger the first call left and at any later time, returns the
  summary of the first call and leaves the ledger as the first call left it: nothing
  is added a second time.
\<close>

theorem reconcile_idempotent:
  "reconcile recorded uk ts asOf' (snd (reconcile recorded uk ts asOf lg))
     = reconcile recorded uk ts asOf lg"
  by (simp add: reconcile_def Let_def)

lemma bucket_nonneg:
  "\<forall>e \<in> set entries. 0 \<le> saved e \<Longrightarrow> 0 \<le> bucket ty entries"
  by (auto simp: bucket_def intro!: sum_list_nonneg)

lemma total_buckets:
  "sum_list (map saved entries)
     = bucket PREVENTED entries + bucket REDUCED entries + bucket OPTIMIZED entries"
proof (induction entries)
  case Nil
  then show ?case by (simp add: bucket_def)
next
  case (Cons e entries)
  then show ?case by (cases "savingType e") (simp_all add: bucket_def)
qed

lemma residual_nonneg: "e \<in> set (residual recorded t) \<Longrightarrow> 0 \<le> saved e"
  by (auto simp: residual_def split: option.splits if_splits)

lemma residuals_nonneg:
  "e \<in> set (concat (map (residual recorded) ts)) \<Longrightarrow> 0 \<le> saved e"
  using residual_nonneg by fastforce

text \<open>
  Claim C5. In every summary that \<open>reconcile\<close> produces the total is the sum of the
  prevented, reduced and optimized amounts, and none of the four is negative.
\<close>

theorem reconcile_summary_invariant:
  "total (fst (reconcile recorded uk ts asOf lg))
     = prevented (fst (reconcile recorded uk ts asOf lg))
       + reduced (fst (reconcile recorded uk ts asOf lg))
       + optimized (fst (reconcile recorded uk ts asOf lg))
   \<and> 0 \<le> total (fst (reconcile recorded uk ts asOf lg))
   \<and> 0 \<le> prevented (fst (reconcile recorded uk ts asOf lg))
   \<and> 0 \<le> reduced (fst (reconcile recorded uk ts asOf lg))
   \<and> 0 \<le> optimized (fst (reconcile recorded uk ts asOf lg))"
proof -
  let ?es = "concat (map (residual recorded) ts)"
  have nn: "\<forall>e \<in> set ?es. 0 \<le> saved e" using residuals_nonneg by blast
  have s: "fst (reconcile recorded uk ts asOf lg) = summarise ?es"
    by (simp add: reconcile_def Let_def)
  have "0 \<le> sum_list (map saved ?es)"
    using nn by (auto intro!: sum_list_nonneg)
  then show ?thesis
    unfolding s using total_buckets[of ?es] bucket_nonneg[OF nn]
    by (simp add: summarise_def)
qed

end
